theory Spec2Isabelle
  imports Complex_Main
begin

section \<open>The home loan calculator of \<^verbatim>\<open>src/home_loan.py\<close>\<close>

text \<open>
  The script reads six numbers from input widgets, validates them, computes the monthly
  payment of a fixed-rate loan, the headline totals and the amortization schedule.

  Conventions of the embedding.
  \<^item> A Python \<^verbatim>\<open>int\<close> is an integer and a finite \<^verbatim>\<open>float\<close> is the real number it
    stands for. The rate and the payment formula (lines 72 to 91) are computed on binary64
    doubles: every result is rounded to the nearest double, a power beyond the range raises
    \<^verbatim>\<open>OverflowError\<close>, and a product or quotient beyond the range is infinite, which
    the test \<^verbatim>\<open>math.isfinite\<close> turns into a stop. The stops of the script depend on
    this. The comparisons, the totals and the body of the loop are written with the exact
    operators, each standing for the operator of the script.
  \<^item> Capitalised names are what the page shows or asks for (widget values, metric labels,
    table columns); lower-case names are the variables of the script.
  \<^item> \<^verbatim>\<open>st.error(msg); st.stop()\<close> ends the run: the run returns \<open>Inl\<close> of the messages
    shown. A run that reaches the end returns \<open>Inr\<close> of what it displays.
\<close>

subsection \<open>Input validation (lines 13 to 37)\<close>

text \<open>
  \<^verbatim>\<open>validate_inputs\<close> is an ordinary Python function: it accepts any numbers, so its
  arguments are reals. Each test appends its message when it fires; all seven tests run.
\<close>

definition validate_inputs :: "real \<Rightarrow> real \<Rightarrow> real \<Rightarrow> real \<Rightarrow> real \<Rightarrow> real \<Rightarrow> string list" where
  "validate_inputs home_value deposit interest_rate loan_term processing_fees prepayment =
     (if home_value \<le> 0 then [''Home value must be greater than 0''] else []) @
     (if deposit < 0 then [''Deposit cannot be negative''] else []) @
     (if deposit > home_value then [''Deposit cannot exceed home value''] else []) @
     (if interest_rate \<le> 0 then [''Interest rate must be greater than 0''] else []) @
     (if loan_term \<le> 0 then [''Loan term must be at least 1 year''] else []) @
     (if processing_fees < 0 then [''Processing fees cannot be negative''] else []) @
     (if prepayment < 0 then [''Prepayment cannot be negative''] else [])"

text \<open>The messages, under the names the specification gives to the errors.\<close>

definition InvalidHomeValue :: string where
  "InvalidHomeValue = ''Home value must be greater than 0''"

definition NegativeDeposit :: string where
  "NegativeDeposit = ''Deposit cannot be negative''"

definition DepositExceedsValue :: string where
  "DepositExceedsValue = ''Deposit cannot exceed home value''"

definition InvalidInterestRate :: string where
  "InvalidInterestRate = ''Interest rate must be greater than 0''"

definition InvalidTerm :: string where
  "InvalidTerm = ''Loan term must be at least 1 year''"

definition NegativeFees :: string where
  "NegativeFees = ''Processing fees cannot be negative''"

definition NegativePrepayment :: string where
  "NegativePrepayment = ''Prepayment cannot be negative''"

text \<open>The message of the separate loan amount test of lines 67 to 70.\<close>

definition NonPositiveLoanAmount :: string where
  "NonPositiveLoanAmount = ''Loan amount must be greater than 0. Reduce your deposit amount.''"

text \<open>The message of the handler of \<^verbatim>\<open>ZeroDivisionError\<close> (lines 195 and 196).\<close>

definition DivisionByZeroMessage :: string where
  "DivisionByZeroMessage = ''Division by zero error occurred. Please check your input values.''"

text \<open>The message of the handler of \<^verbatim>\<open>OverflowError\<close> around the formula (lines 85 to 87).\<close>

definition OverflowMessage :: string where
  "OverflowMessage =
     ''Interest rate calculation resulted in overflow. Please try different values.''"

text \<open>The message of the test \<^verbatim>\<open>math.isfinite\<close> (lines 89 to 91).\<close>

definition InvalidPaymentMessage :: string where
  "InvalidPaymentMessage =
     ''Invalid monthly payment calculation. Please check your input values.''"

subsection \<open>Doubles\<close>

text \<open>
  Rounding to the nearest integer, ties to the even one.
\<close>

definition round_half_even :: "real \<Rightarrow> int" where
  "round_half_even y =
     (let f = \<lfloor>y\<rfloor>; d = y - of_int f
      in if d < 1 / 2 then f else if 1 / 2 < d then f + 1 else if even f then f else f + 1)"

text \<open>
  The distance between neighbouring doubles around \<open>x\<close>: 52 binary places below the
  leading bit, and never below \<open>2 powi - 1074\<close> (the subnormal numbers).
\<close>

definition quantum :: "real \<Rightarrow> real" where
  "quantum x = 2 powi (max \<lfloor>log 2 \<bar>x\<bar>\<rfloor> (- 1022) - 52)"

text \<open>The double nearest to a real number in the range of the doubles.\<close>

definition to_double :: "real \<Rightarrow> real" where
  "to_double x = (if x = 0 then 0 else of_int (round_half_even (x / quantum x)) * quantum x)"

text \<open>
  A real number is beyond the range when it rounds to no finite double: its magnitude is
  at least the largest double plus half a quantum.
\<close>

definition overflows :: "real \<Rightarrow> bool" where
  "overflows x \<longleftrightarrow> 2 ^ 1024 - 2 ^ 970 \<le> \<bar>x\<bar>"

subsection \<open>The monthly payment (lines 75 to 91)\<close>

text \<open>
  What ends the computation of the payment: the two exceptions Python can raise in it, and
  a payment that is infinite or not a number, which the script tests with
  \<^verbatim>\<open>math.isfinite\<close> right after.
\<close>

datatype stop = ZeroDivisionError | OverflowError | NotFinite

text \<open>
  \<^verbatim>\<open>monthly_payment\<close> is computed from \<^verbatim>\<open>loan_amount\<close>, \<^verbatim>\<open>monthly_interest_rate\<close>
  and \<^verbatim>\<open>number_of_payments\<close>.
  \<^item> With a rate of zero it is the quotient of the two integers, written with the exact
    operator; it is finite, so the test of line 89 lets it pass.
  \<^item> Otherwise the formula is evaluated on doubles. Python raises
    \<^verbatim>\<open>ZeroDivisionError\<close> on \<^verbatim>\<open>0.0 ** n\<close> with negative \<open>n\<close> and on a division by
    zero (whatever the numerator), and \<^verbatim>\<open>OverflowError\<close> when the power is beyond the
    range or when \<^verbatim>\<open>loan_amount\<close> is too large an integer for a double. A float to an
    integer power is \<open>powi\<close>; the power of the library is taken as correctly rounded.
  \<^item> A product or the quotient beyond the range is infinite and stays so; the payment is
    then not finite.
\<close>

definition compute_monthly_payment :: "real \<Rightarrow> real \<Rightarrow> int \<Rightarrow> stop + real" where
  "compute_monthly_payment loan_amount monthly_interest_rate number_of_payments =
     (if monthly_interest_rate = 0 then
        (if number_of_payments = 0 then Inl ZeroDivisionError
         else Inr (loan_amount / of_int number_of_payments))
      else
        (let base = to_double (1 + monthly_interest_rate)
         in if base = 0 \<and> number_of_payments < 0 then Inl ZeroDivisionError
            else if overflows (base powi number_of_payments) \<or> overflows loan_amount
              then Inl OverflowError
            else
              (let growth = to_double (base powi number_of_payments);
                   interest_factor = monthly_interest_rate * growth;
                   numerator = to_double loan_amount * to_double interest_factor;
                   denominator = to_double (growth - 1)
               in if denominator = 0 then Inl ZeroDivisionError
                  else if overflows interest_factor \<or> overflows numerator
                            \<or> overflows (to_double numerator / denominator)
                    then Inl NotFinite
                  else Inr (to_double (to_double numerator / denominator)))))"

subsection \<open>The amortization schedule (lines 114 to 148)\<close>

text \<open>One row of the table, under the column names of the data frame.\<close>

record row =
  Month :: int
  Payment :: real
  Principal :: real
  Interest :: real
  Remaining_Balance :: real
  Year :: int

text \<open>
  The body of the \<^verbatim>\<open>for\<close> loop, by recursion on the months still to come. The loop
  carries \<^verbatim>\<open>monthly_payment\<close> and \<^verbatim>\<open>remaining_balance\<close>; it stops after the row
  whose balance is not positive. The prepayment is the raw widget value, added in the months
  divisible by 12.
\<close>

fun amortization_loop :: "real \<Rightarrow> int \<Rightarrow> real \<Rightarrow> real \<Rightarrow> int list \<Rightarrow> row list" where
  "amortization_loop monthly_interest_rate prepayment monthly_payment remaining_balance [] = []"
| "amortization_loop monthly_interest_rate prepayment monthly_payment remaining_balance (i # months) =
     (let interest_payment = remaining_balance * monthly_interest_rate;
          principal_payment = monthly_payment - interest_payment;
          principal_payment =
            (if prepayment > 0 \<and> i mod 12 = 0 then principal_payment + of_int prepayment
             else principal_payment);
          exceeds = (principal_payment > remaining_balance);
          principal_payment = (if exceeds then remaining_balance else principal_payment);
          monthly_payment = (if exceeds then principal_payment + interest_payment else monthly_payment);
          remaining_balance = remaining_balance - principal_payment;
          year = \<lceil>of_int i / (12::real)\<rceil>;
          entry = \<lparr>Month = i, Payment = monthly_payment, Principal = principal_payment,
                   Interest = interest_payment, Remaining_Balance = max remaining_balance 0,
                   Year = year\<rparr>
      in entry #
         (if remaining_balance \<le> 0 then []
          else amortization_loop monthly_interest_rate prepayment monthly_payment
                 remaining_balance months))"

subsection \<open>The whole run (lines 48 to 153)\<close>

datatype frequency = Yearly | Monthly

text \<open>
  The widget values. The number inputs for the amounts and the term are created with integer
  bounds and defaults, so they yield \<^verbatim>\<open>int\<close>; the interest rate is a \<^verbatim>\<open>float\<close>. The
  radio button of the prepayment frequency is only read when the prepayment is positive.
\<close>

record widgets =
  Home_Value :: int
  Deposit :: int
  Interest_Rate :: real
  Loan_Term :: int
  Processing_Fees :: int
  Prepayment :: int
  Prepayment_Frequency :: frequency

text \<open>
  What a run that reaches the schedule has computed: the three metrics of the section
  Repayments, the table, and the variable \<^verbatim>\<open>prepayment_amount\<close> of lines 93 to 100
  (which the page never shows).
\<close>

record report =
  Monthly_Repayments :: real
  Total_Repayments :: real
  Total_Interest :: real
  Schedule :: "row list"
  Prepayment_Amount :: real

definition home_loan :: "widgets \<Rightarrow> string list + report" where
  "home_loan w =
     (let home_value = Home_Value w; deposit = Deposit w; interest_rate = Interest_Rate w;
          loan_term = Loan_Term w; processing_fees = Processing_Fees w;
          prepayment = Prepayment w;
          validation_errors =
            validate_inputs (of_int home_value) (of_int deposit) interest_rate
              (of_int loan_term) (of_int processing_fees) (of_int prepayment)
      in if validation_errors \<noteq> [] then Inl validation_errors
      else
        let loan_amount = home_value - deposit
        in if loan_amount \<le> 0 then Inl [NonPositiveLoanAmount]
        else
          let monthly_interest_rate = to_double (to_double (interest_rate / 100) / 12);
              number_of_payments = loan_term * 12
          in case compute_monthly_payment (of_int loan_amount) monthly_interest_rate
                    number_of_payments of
               Inl ZeroDivisionError \<Rightarrow> Inl [DivisionByZeroMessage]
             | Inl OverflowError \<Rightarrow> Inl [OverflowMessage]
             | Inl NotFinite \<Rightarrow> Inl [InvalidPaymentMessage]
             | Inr monthly_payment \<Rightarrow>
                 let prepayment_amount =
                       (if prepayment > 0 then
                          (if Prepayment_Frequency w = Yearly then of_int prepayment / 12
                           else of_int prepayment)
                        else 0);
                     total_payments = monthly_payment * of_int number_of_payments;
                     total_interest = total_payments - of_int loan_amount;
                     schedule =
                       amortization_loop monthly_interest_rate prepayment monthly_payment
                         (of_int loan_amount) [1..number_of_payments]
                 in Inr \<lparr>Monthly_Repayments = monthly_payment,
                         Total_Repayments = total_payments,
                         Total_Interest = total_interest,
                         Schedule = schedule,
                         Prepayment_Amount = prepayment_amount\<rparr>)"

text \<open>
  Valid inputs are those that pass both gates of the script: no validation message, and a
  positive loan amount.
\<close>

definition valid :: "widgets \<Rightarrow> bool" where
  "valid w \<longleftrightarrow>
     validate_inputs (of_int (Home_Value w)) (of_int (Deposit w)) (Interest_Rate w)
       (of_int (Loan_Term w)) (of_int (Processing_Fees w)) (of_int (Prepayment w)) = []
     \<and> Home_Value w - Deposit w > 0"

subsection \<open>Two runs traced by hand\<close>

text \<open>
  A one year loan of 4095 at 1200 percent a year (a monthly rate of 1, so that every amount
  is a whole number) with a prepayment of 1000 and the frequency Monthly, and the report
  the script computes for it.
\<close>

definition monthly_example :: widgets where
  "monthly_example =
     \<lparr>Home_Value = 4095, Deposit = 0, Interest_Rate = 1200, Loan_Term = 1,
      Processing_Fees = 0, Prepayment = 1000, Prepayment_Frequency = Monthly\<rparr>"

definition monthly_example_report :: report where
  "monthly_example_report =
     \<lparr>Monthly_Repayments = 4096, Total_Repayments = 49152, Total_Interest = 45057,
       Schedule =
         [\<lparr>Month = 1, Payment = 4096, Principal = 1, Interest = 4095, Remaining_Balance = 4094, Year = 1\<rparr>,
          \<lparr>Month = 2, Payment = 4096, Principal = 2, Interest = 4094, Remaining_Balance = 4092, Year = 1\<rparr>,
          \<lparr>Month = 3, Payment = 4096, Principal = 4, Interest = 4092, Remaining_Balance = 4088, Year = 1\<rparr>,
          \<lparr>Month = 4, Payment = 4096, Principal = 8, Interest = 4088, Remaining_Balance = 4080, Year = 1\<rparr>,
          \<lparr>Month = 5, Payment = 4096, Principal = 16, Interest = 4080, Remaining_Balance = 4064, Year = 1\<rparr>,
          \<lparr>Month = 6, Payment = 4096, Principal = 32, Interest = 4064, Remaining_Balance = 4032, Year = 1\<rparr>,
          \<lparr>Month = 7, Payment = 4096, Principal = 64, Interest = 4032, Remaining_Balance = 3968, Year = 1\<rparr>,
          \<lparr>Month = 8, Payment = 4096, Principal = 128, Interest = 3968, Remaining_Balance = 3840, Year = 1\<rparr>,
          \<lparr>Month = 9, Payment = 4096, Principal = 256, Interest = 3840, Remaining_Balance = 3584, Year = 1\<rparr>,
          \<lparr>Month = 10, Payment = 4096, Principal = 512, Interest = 3584, Remaining_Balance = 3072, Year = 1\<rparr>,
          \<lparr>Month = 11, Payment = 4096, Principal = 1024, Interest = 3072, Remaining_Balance = 2048, Year = 1\<rparr>,
          \<lparr>Month = 12, Payment = 4096, Principal = 2048, Interest = 2048, Remaining_Balance = 0, Year = 1\<rparr>],
       Prepayment_Amount = 1000\<rparr>"

text \<open>
  A two year loan of 16777215 at the same rate with a yearly prepayment of 16777216, which
  clears the balance in month 12, and the report the script computes for it.
\<close>

definition early_payoff_example :: widgets where
  "early_payoff_example =
     \<lparr>Home_Value = 16777215, Deposit = 0, Interest_Rate = 1200, Loan_Term = 2,
      Processing_Fees = 0, Prepayment = 16777216, Prepayment_Frequency = Yearly\<rparr>"

definition early_payoff_report :: report where
  "early_payoff_report =
     \<lparr>Monthly_Repayments = 16777216, Total_Repayments = 402653184, Total_Interest = 385875969,
       Schedule =
         [\<lparr>Month = 1, Payment = 16777216, Principal = 1, Interest = 16777215, Remaining_Balance = 16777214, Year = 1\<rparr>,
          \<lparr>Month = 2, Payment = 16777216, Principal = 2, Interest = 16777214, Remaining_Balance = 16777212, Year = 1\<rparr>,
          \<lparr>Month = 3, Payment = 16777216, Principal = 4, Interest = 16777212, Remaining_Balance = 16777208, Year = 1\<rparr>,
          \<lparr>Month = 4, Payment = 16777216, Principal = 8, Interest = 16777208, Remaining_Balance = 16777200, Year = 1\<rparr>,
          \<lparr>Month = 5, Payment = 16777216, Principal = 16, Interest = 16777200, Remaining_Balance = 16777184, Year = 1\<rparr>,
          \<lparr>Month = 6, Payment = 16777216, Principal = 32, Interest = 16777184, Remaining_Balance = 16777152, Year = 1\<rparr>,
          \<lparr>Month = 7, Payment = 16777216, Principal = 64, Interest = 16777152, Remaining_Balance = 16777088, Year = 1\<rparr>,
          \<lparr>Month = 8, Payment = 16777216, Principal = 128, Interest = 16777088, Remaining_Balance = 16776960, Year = 1\<rparr>,
          \<lparr>Month = 9, Payment = 16777216, Principal = 256, Interest = 16776960, Remaining_Balance = 16776704, Year = 1\<rparr>,
          \<lparr>Month = 10, Payment = 16777216, Principal = 512, Interest = 16776704, Remaining_Balance = 16776192, Year = 1\<rparr>,
          \<lparr>Month = 11, Payment = 16777216, Principal = 1024, Interest = 16776192, Remaining_Balance = 16775168, Year = 1\<rparr>,
          \<lparr>Month = 12, Payment = 33550336, Principal = 16775168, Interest = 16775168, Remaining_Balance = 0, Year = 1\<rparr>],
       Prepayment_Amount = 4194304 / 3\<rparr>"


text \<open>
  A ninety year loan at 1200 percent a year: the power \<open>2 ^ 1080\<close> is beyond the range of
  the doubles.
\<close>

definition overflow_example :: widgets where
  "overflow_example =
     \<lparr>Home_Value = 16777215, Deposit = 0, Interest_Rate = 1200, Loan_Term = 90,
      Processing_Fees = 0, Prepayment = 5, Prepayment_Frequency = Yearly\<rparr>"

text \<open>
  A one year loan at a monthly rate of \<open>2 ^ 80\<close>: the power \<open>2 ^ 960\<close> is in range, its
  product with the rate is not.
\<close>

definition not_finite_example :: widgets where
  "not_finite_example =
     \<lparr>Home_Value = 100000, Deposit = 0, Interest_Rate = 1200 * 2 ^ 80, Loan_Term = 1,
      Processing_Fees = 0, Prepayment = 0, Prepayment_Frequency = Yearly\<rparr>"

section \<open>Properties\<close>

lemma valid_iff:
  "valid w \<longleftrightarrow>
     0 \<le> Deposit w \<and> Deposit w < Home_Value w \<and> 0 < Interest_Rate w \<and> 0 < Loan_Term w
     \<and> 0 \<le> Processing_Fees w \<and> 0 \<le> Prepayment w"
  by (auto simp: valid_def validate_inputs_def)

subsection \<open>Doubles\<close>

text \<open>
  The double of a number whose leading bit is known, and the integers up to \<open>2 ^ 53\<close>,
  which are doubles.
\<close>

lemma round_half_even_of_int: "round_half_even (of_int k) = k"
  by (simp add: round_half_even_def)

lemma floor_log2_eq:
  assumes "2 powi k \<le> x" and "x < 2 powi (k + 1)"
  shows "\<lfloor>log 2 x\<rfloor> = k"
proof -
  have "0 < (2::real) powi k" by simp
  then have x: "0 < x" using assms(1) by linarith
  have "(2::real) powr real_of_int k = 2 powi k" "(2::real) powr (real_of_int k + 1) = 2 powi (k + 1)"
    using powr_real_of_int' [of 2 k] powr_real_of_int' [of 2 "k + 1"] by simp_all
  then show ?thesis
    using assms x by (subst floor_log_eq_powr_iff) simp_all
qed

lemma quantum_eq:
  assumes "2 powi k \<le> \<bar>x\<bar>" and "\<bar>x\<bar> < 2 powi (k + 1)" and "- 1022 \<le> k"
  shows "quantum x = 2 powi (k - 52)"
  unfolding quantum_def floor_log2_eq [OF assms(1,2)] using assms(3) by simp

lemma to_double_eq:
  assumes "2 powi k \<le> \<bar>x\<bar>" and "\<bar>x\<bar> < 2 powi (k + 1)" and "- 1022 \<le> k"
  shows "to_double x = of_int (round_half_even (x / 2 powi (k - 52))) * 2 powi (k - 52)"
proof -
  have "x \<noteq> 0"
  proof
    assume "x = 0"
    with assms(1) have "2 powi k \<le> (0::real)" by simp
    moreover have "0 < (2::real) powi k" by simp
    ultimately show False by linarith
  qed
  then show ?thesis
    unfolding to_double_def quantum_eq [OF assms] by simp
qed

lemma to_double_of_int:
  assumes "\<bar>k\<bar> \<le> 2 ^ 53"
  shows "to_double (of_int k) = of_int k"
proof (cases "k = 0")
  case True
  then show ?thesis by (simp add: to_double_def)
next
  case False
  define e where "e = \<lfloor>log 2 \<bar>real_of_int k\<bar>\<rfloor>"
  have pos: "0 < \<bar>real_of_int k\<bar>" using False by simp
  have one: "1 \<le> \<bar>real_of_int k\<bar>" using False by (simp flip: of_int_abs)
  have e0: "0 \<le> e"
    unfolding e_def using one by simp
  have "\<bar>real_of_int k\<bar> \<le> 2 ^ 53"
    using assms by (metis of_int_abs of_int_le_iff of_int_numeral of_int_power)
  then have "log 2 \<bar>real_of_int k\<bar> \<le> 53"
    using pos by (simp add: log_le_iff)
  then have e53: "e \<le> 53"
    unfolding e_def by (simp add: floor_le_iff)
  have q: "quantum (of_int k) = 2 powi (e - 52)"
    unfolding quantum_def e_def [symmetric] using e0 by simp
  have lower: "2 powi e \<le> \<bar>real_of_int k\<bar>"
    using floor_log_eq_powr_iff [of "\<bar>real_of_int k\<bar>" 2 e] pos powr_real_of_int' [of 2 e]
    by (simp add: e_def)
  have "\<exists>m. real_of_int k / 2 powi (e - 52) = of_int m"
  proof (cases "e \<le> 52")
    case True
    then have "real_of_int k / 2 powi (e - 52) = real_of_int k * 2 ^ nat (52 - e)"
      by (simp add: power_int_def field_simps)
    also have "\<dots> = of_int (k * 2 ^ nat (52 - e))" by simp
    finally show ?thesis by blast
  next
    case False
    with e53 have e: "e = 53" by simp
    have "2 ^ 53 \<le> \<bar>real_of_int k\<bar>"
      using lower unfolding e by simp
    with \<open>\<bar>real_of_int k\<bar> \<le> 2 ^ 53\<close> have "\<bar>real_of_int k\<bar> = 2 ^ 53" by simp
    then have "\<bar>k\<bar> = 2 ^ 53"
      by (metis of_int_abs of_int_eq_iff of_int_numeral of_int_power)
    then have "k = 2 ^ 53 \<or> k = - (2 ^ 53)" by auto
    then show ?thesis
    proof
      assume "k = 2 ^ 53"
      then have "real_of_int k / 2 powi (e - 52) = of_int (2 ^ 52)"
        unfolding e by simp
      then show ?thesis by blast
    next
      assume "k = - (2 ^ 53)"
      then have "real_of_int k / 2 powi (e - 52) = of_int (- (2 ^ 52))"
        unfolding e by simp
      then show ?thesis by blast
    qed
  qed
  then obtain m where m: "real_of_int k / 2 powi (e - 52) = of_int m" by blast
  have "to_double (of_int k) = of_int m * 2 powi (e - 52)"
    using False unfolding to_double_def q m by (simp add: round_half_even_of_int)
  also have "\<dots> = real_of_int k / 2 powi (e - 52) * 2 powi (e - 52)"
    by (simp only: m)
  also have "\<dots> = of_int k" by simp
  finally show ?thesis .
qed

lemma to_double_numeral:
  "numeral n \<le> (2::int) ^ 53 \<Longrightarrow> to_double (numeral n) = numeral n"
  using to_double_of_int [of "numeral n"] by simp

lemma to_double_one: "to_double 1 = 1"
  using to_double_of_int [of 1] by simp

lemma to_double_zero: "to_double 0 = 0"
  by (simp add: to_double_def)

section \<open>The claims\<close>


subsection \<open>C5: the payment at a zero monthly rate\<close>

text \<open>
  Claim C5. With a monthly rate of zero the payment is the loan amount divided by the number
  of payments (any number of payments other than zero, where Python raises
  \<^verbatim>\<open>ZeroDivisionError\<close>); for a loan of 120000 over 12 payments it is 10000.
\<close>

theorem zero_rate_payment:
  "(n \<noteq> 0 \<longrightarrow> compute_monthly_payment L 0 n = Inr (L / of_int n))
   \<and> compute_monthly_payment 120000 0 12 = Inr 10000"
  by (simp add: compute_monthly_payment_def)

theorem zero_rate_payment_witness:
  "(12::int) \<noteq> 0 \<and> compute_monthly_payment 120000 0 12 = Inr (120000 / of_int 12)"
  using zero_rate_payment [of 12 120000] by simp

subsection \<open>C4: when the term is reported as invalid\<close>

text \<open>
  Claim C4 as stated fails: a term of half a year is below 1 and is not reported, since the
  test of line 28 is \<^verbatim>\<open>loan_term <= 0\<close>.
\<close>

theorem invalid_term_fraction_counterexample:
  "(1/2 :: real) < 1 \<and> InvalidTerm \<notin> set (validate_inputs 100 10 5 (1/2) 0 0)"
  by (simp add: validate_inputs_def InvalidTerm_def)

text \<open>
  Claim C4, amended. The term is reported as invalid exactly when it is at most zero; for a
  whole number of years, which is all the term widget yields, that is exactly when it is
  below 1.
\<close>

theorem invalid_term_iff:
  "(InvalidTerm \<in> set (validate_inputs home_value deposit interest_rate loan_term processing_fees prepayment)
      \<longleftrightarrow> loan_term \<le> 0)
   \<and> (InvalidTerm \<in> set (validate_inputs home_value deposit interest_rate (of_int k) processing_fees prepayment)
      \<longleftrightarrow> k < 1)"
  by (auto simp: validate_inputs_def InvalidTerm_def)

theorem invalid_term_iff_witness:
  "InvalidTerm \<in> set (validate_inputs 100 10 5 0 0 0)
   \<and> InvalidTerm \<notin> set (validate_inputs 100 10 5 1 0 0)"
  using invalid_term_iff [of 100 10 5 0 0 0 0] invalid_term_iff [of 100 10 5 1 0 0 1] by simp

subsection \<open>C3: what validation reports\<close>

lemma message_defs:
  "InvalidHomeValue = ''Home value must be greater than 0''"
  "NegativeDeposit = ''Deposit cannot be negative''"
  "DepositExceedsValue = ''Deposit cannot exceed home value''"
  "InvalidInterestRate = ''Interest rate must be greater than 0''"
  "InvalidTerm = ''Loan term must be at least 1 year''"
  "NegativeFees = ''Processing fees cannot be negative''"
  "NegativePrepayment = ''Prepayment cannot be negative''"
  "NonPositiveLoanAmount = ''Loan amount must be greater than 0. Reduce your deposit amount.''"
  by (simp_all add: InvalidHomeValue_def NegativeDeposit_def DepositExceedsValue_def
      InvalidInterestRate_def InvalidTerm_def NegativeFees_def NegativePrepayment_def
      NonPositiveLoanAmount_def)

lemma home_loan_validation_gate:
  assumes "validate_inputs (of_int (Home_Value w)) (of_int (Deposit w)) (Interest_Rate w)
       (of_int (Loan_Term w)) (of_int (Processing_Fees w)) (of_int (Prepayment w)) \<noteq> []"
  shows "home_loan w = Inl (validate_inputs (of_int (Home_Value w)) (of_int (Deposit w)) (Interest_Rate w)
       (of_int (Loan_Term w)) (of_int (Processing_Fees w)) (of_int (Prepayment w)))"
  using assms unfolding home_loan_def Let_def by simp

lemma loan_amount_message_not_validation:
  "NonPositiveLoanAmount \<notin> set (validate_inputs hv d ir lt pf pp)"
  unfolding validate_inputs_def message_defs by simp

text \<open>
  Claim C3 as stated fails: with a deposit of 200 on a home value of 100 the result of
  validation holds the message of the deposit and not the message of the loan amount. The
  run stops on the validation messages (lines 61 to 64) before the loan amount is tested.
\<close>

theorem deposit_exceeds_counterexample:
  "\<not> (DepositExceedsValue \<in> set (validate_inputs 100 200 5 20 0 0)
        \<and> NonPositiveLoanAmount \<in> set (validate_inputs 100 200 5 20 0 0))
   \<and> home_loan \<lparr>Home_Value = 100, Deposit = 200, Interest_Rate = 5, Loan_Term = 20,
        Processing_Fees = 0, Prepayment = 0, Prepayment_Frequency = Yearly\<rparr>
       = Inl [DepositExceedsValue]"
  by (simp add: home_loan_def validate_inputs_def message_defs)

text \<open>
  Claim C3, amended. Validation reports each of its seven constraints exactly when it is
  violated (all of them, not only the first) and never the loan amount message. When the
  deposit exceeds the home value the run shows the validation messages and stops. The loan
  amount message is shown exactly when validation finds nothing and the deposit equals the
  home value.
\<close>

theorem validate_collects_violations:
  fixes w :: widgets
  defines "errors \<equiv> validate_inputs (of_int (Home_Value w)) (of_int (Deposit w)) (Interest_Rate w)
       (of_int (Loan_Term w)) (of_int (Processing_Fees w)) (of_int (Prepayment w))"
  shows "(InvalidHomeValue \<in> set errors \<longleftrightarrow> Home_Value w \<le> 0)
    \<and> (NegativeDeposit \<in> set errors \<longleftrightarrow> Deposit w < 0)
    \<and> (DepositExceedsValue \<in> set errors \<longleftrightarrow> Deposit w > Home_Value w)
    \<and> (InvalidInterestRate \<in> set errors \<longleftrightarrow> Interest_Rate w \<le> 0)
    \<and> (InvalidTerm \<in> set errors \<longleftrightarrow> Loan_Term w \<le> 0)
    \<and> (NegativeFees \<in> set errors \<longleftrightarrow> Processing_Fees w < 0)
    \<and> (NegativePrepayment \<in> set errors \<longleftrightarrow> Prepayment w < 0)
    \<and> NonPositiveLoanAmount \<notin> set errors
    \<and> (Deposit w > Home_Value w \<longrightarrow> home_loan w = Inl errors)
    \<and> (home_loan w = Inl [NonPositiveLoanAmount] \<longleftrightarrow> errors = [] \<and> Deposit w = Home_Value w)"
proof -
  have members:
    "(InvalidHomeValue \<in> set errors \<longleftrightarrow> Home_Value w \<le> 0)
    \<and> (NegativeDeposit \<in> set errors \<longleftrightarrow> Deposit w < 0)
    \<and> (DepositExceedsValue \<in> set errors \<longleftrightarrow> Deposit w > Home_Value w)
    \<and> (InvalidInterestRate \<in> set errors \<longleftrightarrow> Interest_Rate w \<le> 0)
    \<and> (InvalidTerm \<in> set errors \<longleftrightarrow> Loan_Term w \<le> 0)
    \<and> (NegativeFees \<in> set errors \<longleftrightarrow> Processing_Fees w < 0)
    \<and> (NegativePrepayment \<in> set errors \<longleftrightarrow> Prepayment w < 0)"
    unfolding errors_def validate_inputs_def message_defs by simp
  have absent: "NonPositiveLoanAmount \<notin> set errors"
    unfolding errors_def by (rule loan_amount_message_not_validation)
  have gate: "home_loan w = Inl errors" if "Deposit w > Home_Value w"
  proof -
    from that members have "DepositExceedsValue \<in> set errors" by simp
    then have "errors \<noteq> []" by auto
    then show ?thesis
      unfolding errors_def by (rule home_loan_validation_gate)
  qed
  have later: "home_loan w = Inl [NonPositiveLoanAmount] \<longleftrightarrow> errors = [] \<and> Deposit w = Home_Value w"
  proof (cases "errors = []")
    case False
    then have "home_loan w = Inl errors"
      unfolding errors_def by (rule home_loan_validation_gate)
    moreover have "errors \<noteq> [NonPositiveLoanAmount]"
      using absent by auto
    ultimately show ?thesis using False by simp
  next
    case True
    then have le: "Deposit w \<le> Home_Value w"
      using members by (simp add: not_less)
    have dz: "[DivisionByZeroMessage] \<noteq> [NonPositiveLoanAmount]"
      "[OverflowMessage] \<noteq> [NonPositiveLoanAmount]"
      "[InvalidPaymentMessage] \<noteq> [NonPositiveLoanAmount]"
      by (simp_all add: DivisionByZeroMessage_def OverflowMessage_def InvalidPaymentMessage_def
          NonPositiveLoanAmount_def)
    show ?thesis
    proof (cases "Deposit w = Home_Value w")
      case eq: True
      then show ?thesis
        using True unfolding errors_def home_loan_def Let_def by simp
    next
      case neq: False
      with le have "\<not> Home_Value w - Deposit w \<le> 0" by simp
      then show ?thesis
        using True neq dz unfolding errors_def home_loan_def Let_def
        by (simp split: sum.splits stop.splits)
    qed
  qed
  from members absent gate later show ?thesis by blast
qed

theorem validate_collects_violations_witness:
  "Deposit \<lparr>Home_Value = 100, Deposit = 200, Interest_Rate = 0, Loan_Term = 20,
        Processing_Fees = 0, Prepayment = 0, Prepayment_Frequency = Yearly\<rparr>
     > Home_Value \<lparr>Home_Value = 100, Deposit = 200, Interest_Rate = 0, Loan_Term = 20,
        Processing_Fees = 0, Prepayment = 0, Prepayment_Frequency = Yearly\<rparr>
   \<and> home_loan \<lparr>Home_Value = 100, Deposit = 200, Interest_Rate = 0, Loan_Term = 20,
        Processing_Fees = 0, Prepayment = 0, Prepayment_Frequency = Yearly\<rparr>
       = Inl [DepositExceedsValue, InvalidInterestRate]"
  using validate_collects_violations [of "\<lparr>Home_Value = 100, Deposit = 200, Interest_Rate = 0,
        Loan_Term = 20, Processing_Fees = 0, Prepayment = 0, Prepayment_Frequency = Yearly\<rparr>"]
  by (simp add: validate_inputs_def message_defs)

subsection \<open>The two traced runs\<close>

lemma ceiling_unit_fraction: "\<lceil>1 / numeral n :: real\<rceil> = 1"
  by (rule ceiling_unique) simp_all

lemma monthly_example_run: "home_loan monthly_example = Inr monthly_example_report"
  unfolding monthly_example_def monthly_example_report_def home_loan_def
  by (simp add: validate_inputs_def compute_monthly_payment_def Let_def upto_rec1
      ceiling_unit_fraction to_double_numeral to_double_one overflows_def)

lemma early_payoff_run: "home_loan early_payoff_example = Inr early_payoff_report"
  unfolding early_payoff_example_def early_payoff_report_def home_loan_def
  by (simp add: validate_inputs_def compute_monthly_payment_def Let_def upto_rec1
      ceiling_unit_fraction to_double_numeral to_double_one overflows_def)

subsection \<open>C7: balances in the schedule\<close>

lemma amortization_loop_balance:
  "\<forall>e \<in> set (amortization_loop r pp p B months). 0 \<le> Remaining_Balance e"
  by (induction months arbitrary: p B) (simp_all add: Let_def)

lemma home_loan_schedule:
  assumes "home_loan w = Inr rep"
  shows "Schedule rep =
           amortization_loop (to_double (to_double (Interest_Rate w / 100) / 12)) (Prepayment w)
             (Monthly_Repayments rep)
             (of_int (Home_Value w - Deposit w)) [1..Loan_Term w * 12]"
  using assms unfolding home_loan_def Let_def
  by (auto split: if_splits sum.splits stop.splits)


text \<open>
  Claim C7. Every row of a schedule has a remaining balance of at least zero, in any run
  that produces a schedule and for the loop from any state. In a month where the principal
  part (with the prepayment, if one is due) would exceed the balance, the row pays exactly
  the balance as principal, its payment is that principal plus the interest, its reported
  balance is zero, and it is the last row.
\<close>

theorem schedule_balance_nonneg:
  "(home_loan w = Inr rep \<longrightarrow> (\<forall>e \<in> set (Schedule rep). 0 \<le> Remaining_Balance e))
   \<and> (\<forall>e \<in> set (amortization_loop r pp p B months). 0 \<le> Remaining_Balance e)
   \<and> (B < p - B * r + (if 0 < pp \<and> i mod 12 = 0 then of_int pp else 0) \<longrightarrow>
        amortization_loop r pp p B (i # months) =
          [\<lparr>Month = i, Payment = B + B * r, Principal = B, Interest = B * r,
            Remaining_Balance = 0, Year = \<lceil>of_int i / (12::real)\<rceil>\<rparr>])"
proof (intro conjI impI)
  assume "home_loan w = Inr rep"
  then have "Schedule rep =
           amortization_loop (to_double (to_double (Interest_Rate w / 100) / 12)) (Prepayment w)
             (Monthly_Repayments rep)
             (of_int (Home_Value w - Deposit w)) [1..Loan_Term w * 12]"
    by (rule home_loan_schedule)
  then show "\<forall>e \<in> set (Schedule rep). 0 \<le> Remaining_Balance e"
    using amortization_loop_balance by presburger
next
  show "\<forall>e \<in> set (amortization_loop r pp p B months). 0 \<le> Remaining_Balance e"
    by (rule amortization_loop_balance)
next
  assume "B < p - B * r + (if 0 < pp \<and> i mod 12 = 0 then of_int pp else 0)"
  then show "amortization_loop r pp p B (i # months) =
          [\<lparr>Month = i, Payment = B + B * r, Principal = B, Interest = B * r,
            Remaining_Balance = 0, Year = \<lceil>of_int i / (12::real)\<rceil>\<rparr>]"
    by (simp add: Let_def split: if_splits)
qed

theorem schedule_balance_nonneg_witness:
  "home_loan monthly_example = Inr monthly_example_report
   \<and> length (Schedule monthly_example_report) = 12
   \<and> list_all (\<lambda>e. 0 \<le> Remaining_Balance e) (Schedule monthly_example_report)
   \<and> length (amortization_loop 1 1000 4096 2048 [12, 13]) = 1
   \<and> list_all (\<lambda>e. 0 \<le> Remaining_Balance e) (amortization_loop 1 1000 4096 2048 [12, 13])
   \<and> (2048 :: real) < 4096 - 2048 * 1 + of_int 1000
   \<and> amortization_loop 1 1000 4096 2048 [12, 13] =
        [\<lparr>Month = 12, Payment = 4096, Principal = 2048, Interest = 2048,
          Remaining_Balance = 0, Year = 1\<rparr>]"
  using schedule_balance_nonneg [of monthly_example monthly_example_report 1 1000 4096 2048
      "[13]" 12] monthly_example_run
  by (simp add: monthly_example_report_def list_all_iff)

subsection \<open>C2: the prepayment of a monthly frequency\<close>

text \<open>
  Claim C2 at the first traced run, whose frequency is Monthly and whose prepayment is 1000:
  the principal parts are the payment of 4096 less the interest, doubling from 1 to 2048.
  No month has the prepayment added to its principal but month 12, where the sum exceeds
  the balance and the principal is the balance.
\<close>

theorem monthly_prepayment_ignored:
  "Prepayment_Frequency monthly_example = Monthly \<and> Prepayment monthly_example = 1000
   \<and> home_loan monthly_example = Inr monthly_example_report
   \<and> map Month (Schedule monthly_example_report) = [1, 2, 3, 4, 5, 6, 7, 8, 9, 10, 11, 12]
   \<and> map Payment (Schedule monthly_example_report) =
        [4096, 4096, 4096, 4096, 4096, 4096, 4096, 4096, 4096, 4096, 4096, 4096]
   \<and> map Interest (Schedule monthly_example_report) =
        [4095, 4094, 4092, 4088, 4080, 4064, 4032, 3968, 3840, 3584, 3072, 2048]
   \<and> map Principal (Schedule monthly_example_report) =
        [1, 2, 4, 8, 16, 32, 64, 128, 256, 512, 1024, 2048]"
  using monthly_example_run
  by (simp add: monthly_example_def monthly_example_report_def)

subsection \<open>C1: the totals\<close>

text \<open>
  Claim C1 as stated fails at the second traced run: the prepayment ends the schedule after
  12 of the 24 months, its payments add up to 218099712, and the total the run reports is
  the monthly payment times 24, which is 402653184.
\<close>

theorem totals_closed_form_counterexample:
  "home_loan early_payoff_example = Inr early_payoff_report
   \<and> length (Schedule early_payoff_report) = 12
   \<and> sum_list (map Payment (Schedule early_payoff_report)) = 218099712
   \<and> Total_Repayments early_payoff_report = 402653184
   \<and> Total_Interest early_payoff_report = 385875969"
  using early_payoff_run
  by (simp add: early_payoff_report_def)

subsection \<open>What a report holds\<close>

lemma home_loan_valid:
  assumes "home_loan w = Inr rep"
  shows "valid w"
  using assms unfolding home_loan_def valid_def Let_def
  by (auto split: if_splits)

lemma home_loan_payment:
  assumes "home_loan w = Inr rep"
  shows "compute_monthly_payment (of_int (Home_Value w - Deposit w))
           (to_double (to_double (Interest_Rate w / 100) / 12)) (Loan_Term w * 12)
         = Inr (Monthly_Repayments rep)"
  using assms unfolding home_loan_def Let_def
  by (auto split: if_splits sum.splits stop.splits)

lemma home_loan_totals:
  assumes "home_loan w = Inr rep"
  shows "Total_Repayments rep = Monthly_Repayments rep * of_int (Loan_Term w * 12)"
    and "Total_Interest rep = Total_Repayments rep - of_int (Home_Value w - Deposit w)"
  using assms unfolding home_loan_def Let_def
  by (auto split: if_splits sum.splits stop.splits)

lemma home_loan_prepayment_amount:
  assumes "home_loan w = Inr rep"
  shows "Prepayment_Amount rep =
           (if Prepayment w > 0 then
              (if Prepayment_Frequency w = Yearly then of_int (Prepayment w) / 12
               else of_int (Prepayment w))
            else 0)"
  using assms unfolding home_loan_def Let_def
  by (auto split: if_splits sum.splits stop.splits)

lemma home_loan_report:
  assumes "valid w"
    and "compute_monthly_payment (of_int (Home_Value w - Deposit w))
           (to_double (to_double (Interest_Rate w / 100) / 12)) (Loan_Term w * 12) = Inr p"
  shows "home_loan w =
    Inr \<lparr>Monthly_Repayments = p,
          Total_Repayments = p * of_int (Loan_Term w * 12),
          Total_Interest = p * of_int (Loan_Term w * 12) - of_int (Home_Value w - Deposit w),
          Schedule =
            amortization_loop (to_double (to_double (Interest_Rate w / 100) / 12)) (Prepayment w) p
              (of_int (Home_Value w - Deposit w)) [1..Loan_Term w * 12],
          Prepayment_Amount =
            (if Prepayment w > 0 then
               (if Prepayment_Frequency w = Yearly then of_int (Prepayment w) / 12
                else of_int (Prepayment w))
             else 0)\<rparr>"
proof -
  have v: "validate_inputs (of_int (Home_Value w)) (of_int (Deposit w)) (Interest_Rate w)
       (of_int (Loan_Term w)) (of_int (Processing_Fees w)) (of_int (Prepayment w)) = []"
    and l: "\<not> Home_Value w - Deposit w \<le> 0"
    using assms(1) by (auto simp: valid_def)
  show ?thesis
    unfolding home_loan_def Let_def v
    using l assms(2) by simp
qed

lemma to_double_nonneg:
  assumes "0 \<le> x"
  shows "0 \<le> to_double x"
proof -
  have "0 \<le> x / quantum x"
    using assms by (simp add: quantum_def)
  then have "0 \<le> \<lfloor>x / quantum x\<rfloor>" by simp
  then have "0 \<le> round_half_even (x / quantum x)"
    by (simp add: round_half_even_def Let_def)
  then show ?thesis
    by (simp add: to_double_def quantum_def)
qed

lemma home_loan_rate_nonneg:
  assumes "valid w"
  shows "0 \<le> to_double (to_double (Interest_Rate w / 100) / 12)"
proof -
  have "0 \<le> Interest_Rate w / 100"
    using assms by (simp add: valid_iff)
  then have "0 \<le> to_double (Interest_Rate w / 100) / 12"
    using to_double_nonneg by simp
  then show ?thesis by (rule to_double_nonneg)
qed

subsection \<open>C1, amended: the totals are the closed form\<close>

text \<open>
  Claim C1, amended. Whenever the run produces a report, the total payments it reports are
  the monthly payment times the number of payments, and the total interest is the total
  payments less the loan amount. Neither is computed from the schedule.
\<close>

theorem totals_closed_form:
  assumes "home_loan w = Inr rep"
  shows "Total_Repayments rep = Monthly_Repayments rep * of_int (Loan_Term w * 12)
    \<and> Total_Interest rep = Total_Repayments rep - of_int (Home_Value w - Deposit w)"
  using home_loan_totals [OF assms] by simp

theorem totals_closed_form_witness:
  "home_loan early_payoff_example = Inr early_payoff_report
   \<and> Total_Repayments early_payoff_report = Monthly_Repayments early_payoff_report * 24
   \<and> Total_Interest early_payoff_report = Total_Repayments early_payoff_report - 16777215"
  using totals_closed_form [OF early_payoff_run] early_payoff_run
  by (simp add: early_payoff_example_def)

subsection \<open>C10: the prepayment frequency\<close>

text \<open>
  Claim C10. When the run with the frequency Yearly produces a report, so does the run with
  the frequency Monthly on the same inputs, and with the same schedule, payment and totals.
  With a positive prepayment the two runs differ in \<^verbatim>\<open>prepayment_amount\<close> (a twelfth of
  the prepayment or all of it), which the loop never reads.
\<close>

theorem frequency_never_used:
  assumes "home_loan (w\<lparr>Prepayment_Frequency := Yearly\<rparr>) = Inr ry"
  shows "\<exists>rm. home_loan (w\<lparr>Prepayment_Frequency := Monthly\<rparr>) = Inr rm
           \<and> Schedule rm = Schedule ry
           \<and> Monthly_Repayments rm = Monthly_Repayments ry
           \<and> Total_Repayments rm = Total_Repayments ry
           \<and> Total_Interest rm = Total_Interest ry
           \<and> (0 < Prepayment w \<longrightarrow>
                Prepayment_Amount ry = of_int (Prepayment w) / 12
                \<and> Prepayment_Amount rm = of_int (Prepayment w))"
proof -
  let ?y = "w\<lparr>Prepayment_Frequency := Yearly\<rparr>" and ?m = "w\<lparr>Prepayment_Frequency := Monthly\<rparr>"
  have "valid ?y" by (rule home_loan_valid [OF assms])
  then have vm: "valid ?m" by (simp add: valid_iff)
  have "compute_monthly_payment (of_int (Home_Value ?m - Deposit ?m))
           (to_double (to_double (Interest_Rate ?m / 100) / 12)) (Loan_Term ?m * 12)
         = Inr (Monthly_Repayments ry)"
    using home_loan_payment [OF assms] by simp
  from home_loan_report [OF vm this] home_loan_schedule [OF assms] home_loan_totals [OF assms]
    home_loan_prepayment_amount [OF assms]
  show ?thesis by simp
qed

theorem frequency_never_used_witness:
  "home_loan (monthly_example\<lparr>Prepayment_Frequency := Yearly\<rparr>)
     = Inr (monthly_example_report\<lparr>Prepayment_Amount := 250 / 3\<rparr>)
   \<and> (\<exists>rm. home_loan (monthly_example\<lparr>Prepayment_Frequency := Monthly\<rparr>) = Inr rm
        \<and> Schedule rm = Schedule monthly_example_report
        \<and> Prepayment_Amount rm = 1000)"
proof -
  have run: "home_loan (monthly_example\<lparr>Prepayment_Frequency := Yearly\<rparr>)
     = Inr (monthly_example_report\<lparr>Prepayment_Amount := 250 / 3\<rparr>)"
    unfolding monthly_example_def monthly_example_report_def home_loan_def
    by (simp add: validate_inputs_def compute_monthly_payment_def Let_def upto_rec1
        ceiling_unit_fraction to_double_numeral to_double_one overflows_def)
  from frequency_never_used [OF run] run show ?thesis
    by (auto simp: monthly_example_def)
qed

subsection \<open>Where the loop stops\<close>






subsection \<open>C8: the length of the schedule without prepayment\<close>


subsection \<open>One month of the loop\<close>

text \<open>
  After a month the balance is \<open>B * (1 + r) - p\<close> less the prepayment due, or zero when
  that is negative; the loop goes on only while it is positive, and then with the same
  monthly payment.
\<close>

lemma amortization_loop_Cons_length:
  "length (amortization_loop r pp p B (i # months)) =
     Suc (if B * (1 + r) - p - (if 0 < pp \<and> i mod 12 = 0 then of_int pp else 0) \<le> 0 then 0
          else length (amortization_loop r pp p
                 (B * (1 + r) - p - (if 0 < pp \<and> i mod 12 = 0 then of_int pp else 0)) months))"
  by (auto simp: Let_def algebra_simps)

lemma amortization_loop_Cons_interest:
  "map Interest (amortization_loop r pp p B (i # months)) =
     B * r # (if B * (1 + r) - p - (if 0 < pp \<and> i mod 12 = 0 then of_int pp else 0) \<le> 0 then []
          else map Interest (amortization_loop r pp p
                 (B * (1 + r) - p - (if 0 < pp \<and> i mod 12 = 0 then of_int pp else 0)) months))"
  by (auto simp: Let_def algebra_simps)

lemma prepayment_due_mono:
  assumes "a \<le> b"
  shows "(if 0 < a \<and> i mod 12 = 0 then real_of_int a else 0)
       \<le> (if 0 < b \<and> (i::int) mod 12 = 0 then real_of_int b else 0)"
  using assms by auto

lemma amortization_loop_length_mono:
  assumes "0 \<le> r" and "a \<le> b" and "Bb \<le> Ba"
  shows "length (amortization_loop r b p Bb months) \<le> length (amortization_loop r a p Ba months)"
  using assms(3)
proof (induction months arbitrary: Ba Bb)
  case Nil
  then show ?case by simp
next
  case (Cons i months)
  let ?da = "if 0 < a \<and> i mod 12 = 0 then real_of_int a else 0"
  let ?db = "if 0 < b \<and> i mod 12 = 0 then real_of_int b else 0"
  have "Bb * (1 + r) \<le> Ba * (1 + r)"
    using Cons.prems assms(1) by (intro mult_right_mono) simp_all
  moreover have "?da \<le> ?db"
    by (rule prepayment_due_mono [OF assms(2)])
  ultimately have le: "Bb * (1 + r) - p - ?db \<le> Ba * (1 + r) - p - ?da"
    by linarith
  define Xa where "Xa = Ba * (1 + r) - p - ?da"
  define Xb where "Xb = Bb * (1 + r) - p - ?db"
  have X: "Xb \<le> Xa"
    using le by (simp only: Xa_def Xb_def)
  have la: "length (amortization_loop r a p Ba (i # months)) =
      Suc (if Xa \<le> 0 then 0 else length (amortization_loop r a p Xa months))"
    by (simp only: amortization_loop_Cons_length Xa_def)
  have lb: "length (amortization_loop r b p Bb (i # months)) =
      Suc (if Xb \<le> 0 then 0 else length (amortization_loop r b p Xb months))"
    by (simp only: amortization_loop_Cons_length Xb_def)
  have "length (amortization_loop r b p Xb months) \<le> length (amortization_loop r a p Xa months)"
    by (rule Cons.IH [OF X])
  then show ?case
    unfolding la lb using X by simp
qed

lemma amortization_loop_interest_nonneg:
  assumes "0 \<le> r" and "0 \<le> B"
  shows "0 \<le> sum_list (map Interest (amortization_loop r pp p B months))"
  using assms(2)
proof (induction months arbitrary: B)
  case Nil
  then show ?case by simp
next
  case (Cons i months)
  define X where "X = B * (1 + r) - p - (if 0 < pp \<and> i mod 12 = 0 then real_of_int pp else 0)"
  have step: "map Interest (amortization_loop r pp p B (i # months)) =
      B * r # (if X \<le> 0 then [] else map Interest (amortization_loop r pp p X months))"
    by (simp only: amortization_loop_Cons_interest X_def)
  have "0 \<le> B * r"
    using assms(1) Cons.prems by simp
  moreover have "0 \<le> sum_list (map Interest (amortization_loop r pp p X months))" if "\<not> X \<le> 0"
    using that by (intro Cons.IH) simp
  ultimately show ?case
    unfolding step by simp
qed

lemma amortization_loop_interest_mono:
  assumes "0 \<le> r" and "a \<le> b" and "Bb \<le> Ba" and "0 \<le> Bb"
  shows "sum_list (map Interest (amortization_loop r b p Bb months))
       \<le> sum_list (map Interest (amortization_loop r a p Ba months))"
  using assms(3,4)
proof (induction months arbitrary: Ba Bb)
  case Nil
  then show ?case by simp
next
  case (Cons i months)
  let ?da = "if 0 < a \<and> i mod 12 = 0 then real_of_int a else 0"
  let ?db = "if 0 < b \<and> i mod 12 = 0 then real_of_int b else 0"
  have "Bb * (1 + r) \<le> Ba * (1 + r)"
    using Cons.prems assms(1) by (intro mult_right_mono) simp_all
  moreover have "?da \<le> ?db"
    by (rule prepayment_due_mono [OF assms(2)])
  ultimately have le: "Bb * (1 + r) - p - ?db \<le> Ba * (1 + r) - p - ?da"
    by linarith
  define Xa where "Xa = Ba * (1 + r) - p - ?da"
  define Xb where "Xb = Bb * (1 + r) - p - ?db"
  have X: "Xb \<le> Xa"
    using le by (simp only: Xa_def Xb_def)
  have sa: "map Interest (amortization_loop r a p Ba (i # months)) =
      Ba * r # (if Xa \<le> 0 then [] else map Interest (amortization_loop r a p Xa months))"
    by (simp only: amortization_loop_Cons_interest Xa_def)
  have sb: "map Interest (amortization_loop r b p Bb (i # months)) =
      Bb * r # (if Xb \<le> 0 then [] else map Interest (amortization_loop r b p Xb months))"
    by (simp only: amortization_loop_Cons_interest Xb_def)
  have first: "Bb * r \<le> Ba * r"
    using Cons.prems assms(1) by (intro mult_right_mono) simp_all
  show ?case
  proof (cases "Xb \<le> 0")
    case True
    have "0 \<le> sum_list (map Interest (amortization_loop r a p Xa months))" if "\<not> Xa \<le> 0"
      using that assms(1) by (intro amortization_loop_interest_nonneg) simp_all
    then show ?thesis
      unfolding sa sb using True first by auto
  next
    case False
    then have "sum_list (map Interest (amortization_loop r b p Xb months))
        \<le> sum_list (map Interest (amortization_loop r a p Xa months))"
      using X by (intro Cons.IH) simp_all
    then show ?thesis
      unfolding sa sb using False X first by simp
  qed
qed

subsection \<open>C9: a larger prepayment\<close>

text \<open>
  Claim C9. Take two runs that produce a report and whose inputs differ in the prepayment
  only. The total interest reported with the larger prepayment is not larger (it is the
  same closed form), its schedule is not longer, and the interest its rows pay adds up to
  no more.
\<close>

theorem prepayment_monotone:
  assumes "home_loan w = Inr rep" and "home_loan (w\<lparr>Prepayment := b\<rparr>) = Inr rep'"
    and "Prepayment w \<le> b"
  shows "Total_Interest rep' \<le> Total_Interest rep
    \<and> length (Schedule rep') \<le> length (Schedule rep)
    \<and> sum_list (map Interest (Schedule rep')) \<le> sum_list (map Interest (Schedule rep))"
proof -
  let ?w' = "w\<lparr>Prepayment := b\<rparr>"
  let ?r = "to_double (to_double (Interest_Rate w / 100) / 12)"
  have v: "valid w" by (rule home_loan_valid [OF assms(1)])
  have r: "0 \<le> ?r" by (rule home_loan_rate_nonneg [OF v])
  have L: "0 \<le> real_of_int (Home_Value w - Deposit w)"
    using v by (simp add: valid_iff)
  have "(Inr (Monthly_Repayments rep') :: stop + real) = Inr (Monthly_Repayments rep)"
    using home_loan_payment [OF assms(1)] home_loan_payment [OF assms(2)] by simp
  then have p: "Monthly_Repayments rep' = Monthly_Repayments rep"
    by (simp only: sum.inject)
  have ti: "Total_Interest rep' \<le> Total_Interest rep"
    using home_loan_totals [OF assms(1)] home_loan_totals [OF assms(2)] p by simp
  have s: "Schedule rep =
      amortization_loop ?r (Prepayment w) (Monthly_Repayments rep)
        (real_of_int (Home_Value w - Deposit w)) [1..Loan_Term w * 12]"
    by (rule home_loan_schedule [OF assms(1)])
  have s': "Schedule rep' =
      amortization_loop ?r b (Monthly_Repayments rep)
        (real_of_int (Home_Value w - Deposit w)) [1..Loan_Term w * 12]"
    using home_loan_schedule [OF assms(2)] p by simp
  have len: "length (Schedule rep') \<le> length (Schedule rep)"
    unfolding s s' by (rule amortization_loop_length_mono [OF r assms(3) order_refl])
  have int: "sum_list (map Interest (Schedule rep')) \<le> sum_list (map Interest (Schedule rep))"
    unfolding s s' by (rule amortization_loop_interest_mono [OF r assms(3) order_refl L])
  from ti len int show ?thesis by blast
qed

lemma home_loan_other_prepayment:
  assumes "home_loan w = Inr rep" and "0 \<le> b"
  shows "\<exists>rep'. home_loan (w\<lparr>Prepayment := b\<rparr>) = Inr rep'"
proof -
  let ?w' = "w\<lparr>Prepayment := b\<rparr>"
  have "valid w" by (rule home_loan_valid [OF assms(1)])
  then have v': "valid ?w'" using assms(2) by (simp add: valid_iff)
  have "compute_monthly_payment (of_int (Home_Value ?w' - Deposit ?w'))
           (to_double (to_double (Interest_Rate ?w' / 100) / 12)) (Loan_Term ?w' * 12)
         = Inr (Monthly_Repayments rep)"
    using home_loan_payment [OF assms(1)] by simp
  from home_loan_report [OF v' this] show ?thesis by blast
qed

theorem prepayment_monotone_witness:
  "\<exists>rep. home_loan (early_payoff_example\<lparr>Prepayment := 0\<rparr>) = Inr rep
     \<and> home_loan early_payoff_example = Inr early_payoff_report
     \<and> Prepayment (early_payoff_example\<lparr>Prepayment := 0\<rparr>) \<le> 16777216
     \<and> Total_Interest early_payoff_report \<le> Total_Interest rep
     \<and> length (Schedule early_payoff_report) \<le> length (Schedule rep)
     \<and> sum_list (map Interest (Schedule early_payoff_report)) \<le> sum_list (map Interest (Schedule rep))"
proof -
  obtain rep where rep: "home_loan (early_payoff_example\<lparr>Prepayment := 0\<rparr>) = Inr rep"
    using home_loan_other_prepayment [OF early_payoff_run, of 0] by auto
  have same: "early_payoff_example\<lparr>Prepayment := 0, Prepayment := 16777216\<rparr> = early_payoff_example"
    by (simp add: early_payoff_example_def)
  have run: "home_loan (early_payoff_example\<lparr>Prepayment := 0\<rparr>\<lparr>Prepayment := 16777216\<rparr>)
      = Inr early_payoff_report"
    using early_payoff_run by (simp only: same)
  from prepayment_monotone [OF rep run] rep early_payoff_run show ?thesis
    by auto
qed

subsection \<open>A run where rounding ends the schedule early\<close>






subsection \<open>C6: a payment that is not finite\<close>

lemma valid_payment_cases:
  fixes w :: widgets
  defines "r \<equiv> to_double (to_double (Interest_Rate w / 100) / 12)"
    and "L \<equiv> real_of_int (Home_Value w - Deposit w)"
    and "n \<equiv> Loan_Term w * 12"
  defines "pw \<equiv> to_double (1 + r) powi n"
  defines "growth \<equiv> to_double pw"
  defines "numerator \<equiv> to_double L * to_double (r * growth)"
  defines "denominator \<equiv> to_double (growth - 1)"
  assumes "valid w" and "r \<noteq> 0"
  shows "home_loan w =
    (if overflows pw \<or> overflows L then Inl [OverflowMessage]
     else if denominator = 0 then Inl [DivisionByZeroMessage]
     else if overflows (r * growth) \<or> overflows numerator
              \<or> overflows (to_double numerator / denominator)
       then Inl [InvalidPaymentMessage]
     else Inr \<lparr>Monthly_Repayments = to_double (to_double numerator / denominator),
          Total_Repayments = to_double (to_double numerator / denominator) * of_int n,
          Total_Interest = to_double (to_double numerator / denominator) * of_int n - L,
          Schedule =
            amortization_loop r (Prepayment w) (to_double (to_double numerator / denominator))
              L [1..n],
          Prepayment_Amount =
            (if Prepayment w > 0 then
               (if Prepayment_Frequency w = Yearly then of_int (Prepayment w) / 12
                else of_int (Prepayment w))
             else 0)\<rparr>)"
proof -
  have v: "validate_inputs (of_int (Home_Value w)) (of_int (Deposit w)) (Interest_Rate w)
       (of_int (Loan_Term w)) (of_int (Processing_Fees w)) (of_int (Prepayment w)) = []"
    and l: "\<not> Home_Value w - Deposit w \<le> 0"
    using assms(8) by (auto simp: valid_def)
  have pos: "\<not> n < 0"
    using assms(8) by (simp add: valid_iff n_def)
  show ?thesis
    unfolding home_loan_def v Let_def compute_monthly_payment_def
    using l pos assms(9)
    by (simp add: r_def L_def n_def pw_def growth_def numerator_def denominator_def)
qed

text \<open>
  Claim C6. Take valid inputs whose monthly rate is not zero, so that the payment comes from
  the formula. When the power is beyond the range of the doubles (or the loan amount is too
  large for a double) the run stops with the overflow message. When the power is in range,
  the denominator is not zero and a product or the quotient is beyond the range, the
  payment is not finite and the run stops with the message of the finiteness test. In both
  cases the run returns messages only: no payment, totals or schedule. A run that returns a
  report has met neither case, and its payment is the double of the formula.
\<close>

theorem non_finite_payment_stops:
  fixes w :: widgets
  defines "r \<equiv> to_double (to_double (Interest_Rate w / 100) / 12)"
    and "L \<equiv> real_of_int (Home_Value w - Deposit w)"
    and "n \<equiv> Loan_Term w * 12"
  defines "pw \<equiv> to_double (1 + r) powi n"
  defines "growth \<equiv> to_double pw"
  defines "numerator \<equiv> to_double L * to_double (r * growth)"
  defines "denominator \<equiv> to_double (growth - 1)"
  assumes "valid w" and "r \<noteq> 0"
  shows "(overflows pw \<or> overflows L \<longrightarrow> home_loan w = Inl [OverflowMessage])
    \<and> (\<not> overflows pw \<and> \<not> overflows L \<and> denominator \<noteq> 0
        \<and> (overflows (r * growth) \<or> overflows numerator
            \<or> overflows (to_double numerator / denominator))
       \<longrightarrow> home_loan w = Inl [InvalidPaymentMessage])
    \<and> (\<forall>rep. home_loan w = Inr rep \<longrightarrow>
          \<not> overflows pw \<and> \<not> overflows L \<and> \<not> overflows (r * growth)
          \<and> \<not> overflows numerator \<and> \<not> overflows (to_double numerator / denominator)
          \<and> Monthly_Repayments rep = to_double (to_double numerator / denominator))"
proof -
  note run = valid_payment_cases [OF assms(8), folded r_def L_def n_def, folded pw_def,
      folded growth_def, folded numerator_def, folded denominator_def, OF assms(9)]
  show ?thesis
    unfolding run by (auto split: if_splits)
qed

lemma to_double_two: "to_double (1 + 1) = 2"
  using to_double_numeral [of "Num.Bit0 Num.One"] by simp

theorem non_finite_payment_stops_witness:
  "valid overflow_example \<and> overflows (2 powi 1080)
   \<and> home_loan overflow_example = Inl [OverflowMessage]
   \<and> valid not_finite_example \<and> \<not> overflows (2 ^ 960) \<and> overflows (2 ^ 80 * 2 ^ 960)
   \<and> home_loan not_finite_example = Inl [InvalidPaymentMessage]
   \<and> home_loan monthly_example = Inr monthly_example_report
   \<and> \<not> overflows (2 powi 12)"
proof -
  \<comment> \<open>the power beyond the range\<close>
  have vo: "valid overflow_example"
    by (simp add: valid_iff overflow_example_def)
  have ro: "to_double (to_double (Interest_Rate overflow_example / 100) / 12) = 1"
    by (simp add: overflow_example_def to_double_numeral to_double_one)
  have no: "Loan_Term overflow_example * 12 = 1080"
    by (simp add: overflow_example_def)
  have o1: "overflows (2 powi 1080)"
    by (simp add: overflows_def)
  have r1: "to_double (to_double (Interest_Rate overflow_example / 100) / 12) \<noteq> 0"
    unfolding ro by simp
  have ov: "overflows (to_double (1 + to_double (to_double (Interest_Rate overflow_example / 100) / 12))
      powi (Loan_Term overflow_example * 12))"
    unfolding ro no to_double_two by (rule o1)
  from non_finite_payment_stops [OF vo r1] ov
  have over: "home_loan overflow_example = Inl [OverflowMessage]"
    by blast
  \<comment> \<open>the product beyond the range\<close>
  have vn: "valid not_finite_example"
    by (simp add: valid_iff not_finite_example_def)
  have a: "to_double (1200 * 2 ^ 80 / 100) = 12 * 2 ^ 80"
    by (subst to_double_eq [of 83]) (simp_all add: round_half_even_def Let_def)
  have b: "to_double (12 * 2 ^ 80 / 12) = 2 ^ 80"
    by (subst to_double_eq [of 80]) (simp_all add: round_half_even_def Let_def)
  have "Interest_Rate not_finite_example = 1200 * 2 ^ 80"
    by (simp add: not_finite_example_def)
  then have rn: "to_double (to_double (Interest_Rate not_finite_example / 100) / 12) = 2 ^ 80"
    by (simp only: a b)
  have nn: "Loan_Term not_finite_example * 12 = 12"
    and Ln: "real_of_int (Home_Value not_finite_example - Deposit not_finite_example) = 100000"
    by (simp_all add: not_finite_example_def)
  have f1: "to_double (1 + 2 ^ 80) = 2 ^ 80"
    by (subst to_double_eq [of 80]) (simp_all add: round_half_even_def Let_def)
  have p: "((2::real) ^ 80) powi 12 = 2 ^ 960"
    by simp
  have f2: "to_double (2 ^ 960) = 2 ^ 960"
    by (subst to_double_eq [of 960]) (simp_all add: round_half_even_def Let_def)
  have f3: "to_double (2 ^ 960 - 1) = 2 ^ 960"
    by (subst to_double_eq [of 959]) (simp_all add: round_half_even_def Let_def)
  have n1: "\<not> overflows (2 ^ 960)" and n2: "\<not> overflows 100000"
    and n3: "overflows (2 ^ 80 * 2 ^ 960)" and n4: "(2::real) ^ 960 \<noteq> 0"
    by (simp_all add: overflows_def)
  have r2: "to_double (to_double (Interest_Rate not_finite_example / 100) / 12) \<noteq> 0"
    unfolding rn by simp
  note T = non_finite_payment_stops [OF vn r2, unfolded rn nn Ln f1 p f2 f3]
  from T n1 n2 n3 n4
  have inf: "home_loan not_finite_example = Inl [InvalidPaymentMessage]"
    by blast
  \<comment> \<open>a run with a report\<close>
  have vm: "valid monthly_example"
    by (simp add: valid_iff monthly_example_def)
  have rm: "to_double (to_double (Interest_Rate monthly_example / 100) / 12) = 1"
    by (simp add: monthly_example_def to_double_numeral to_double_one)
  have nm: "Loan_Term monthly_example * 12 = 12"
    by (simp add: monthly_example_def)
  have r3: "to_double (to_double (Interest_Rate monthly_example / 100) / 12) \<noteq> 0"
    unfolding rm by simp
  note M = non_finite_payment_stops [OF vm r3, unfolded rm nm to_double_two]
  from M monthly_example_run
  have fin: "\<not> overflows (2 powi 12)"
    by blast
  from vo o1 over vn n1 n3 inf monthly_example_run fin show ?thesis
    by blast
qed

end
